theory Spec2Isabelle
  imports Complex_Main "HOL-Library.AList"
begin

section \<open>Python values the notebooks compute with\<close>

text \<open>
  The notebooks are sequences of calls into catalogue, array and plotting libraries.
  What they compute themselves is a handful of list comprehensions, dictionary
  look-ups and one loop. Those are embedded here; each library call is a parameter
  of the definition that makes it.
\<close>

subsection \<open>Strings\<close>

text \<open>
  A Python \<open>str\<close> is modelled as a \<open>string\<close> whose characters are the code points
  U+0000 to U+00FF. \<open>startswith\<close> is \<open>hay.startswith(needle)\<close> and \<open>str_contains\<close>
  is the operator \<open>needle in hay\<close> on two strings: \<open>needle\<close> occurs in \<open>hay\<close> at some
  offset.
\<close>

fun startswith :: "string \<Rightarrow> string \<Rightarrow> bool" where
  "startswith hay [] = True"
| "startswith [] (n # ns) = False"
| "startswith (h # hs) (n # ns) = (h = n \<and> startswith hs ns)"

fun str_contains :: "string \<Rightarrow> string \<Rightarrow> bool" where
  "str_contains needle [] = (needle = [])"
| "str_contains needle (h # hs) = (startswith (h # hs) needle \<or> str_contains needle hs)"

text \<open>
  \<open>str.lower()\<close> on that range of code points: the letters A to Z and the
  Latin-1 capitals U+00C0 to U+00DE (the multiplication sign U+00D7 is not a letter)
  move up by 32; every other character stays.
\<close>

definition chr_lower :: "char \<Rightarrow> char" where
  "chr_lower c =
     (let n = (of_char c :: nat)
      in if (65 \<le> n \<and> n \<le> 90) \<or> (192 \<le> n \<and> n \<le> 222 \<and> n \<noteq> 215)
         then char_of (n + 32) else c)"

definition lower :: "string \<Rightarrow> string" where
  "lower s = map chr_lower s"

section \<open>Finding the landsat collections\<close>

subsection \<open>Geospatial notebook\<close>

text \<open>
  \<^verbatim>\<open>
  all_collections = [i.id for i in catalog.get_collections()]
  landsat_collections = [
      collection for collection in all_collections if "landsat" in collection
  ]
  \<close>
  Of a collection only the field \<open>id\<close> is read.
\<close>

record collection =
  id_coll :: string

definition all_collections :: "collection list \<Rightarrow> string list" where
  "all_collections get_collections = map id_coll get_collections"

definition landsat_collections :: "string list \<Rightarrow> string list" where
  "landsat_collections all_colls =
     filter (\<lambda>collection. str_contains ''landsat'' collection) all_colls"

subsection \<open>Intake notebook\<close>

text \<open>
  \<^verbatim>\<open>
  description = {}
  for data_description in stac_cat.data.values():
      data = data_description.kwargs["data"]
      description[data["id"]] = data["description"]

  pprint([key for key in description.keys() if 'landsat' in key.lower()])
  \<close>
  A Python dictionary keeps its keys in the order of their first insertion, and a
  second assignment to a key replaces the value where it stands: an association
  list under \<open>AList.update\<close>. \<open>data_values\<close> is \<open>stac_cat.data.values()\<close>, each entry
  reduced to the two fields of \<open>kwargs["data"]\<close> that are read.
\<close>

record data_description =
  data_id :: string
  data_descr :: string

definition description :: "data_description list \<Rightarrow> (string \<times> string) list" where
  "description data_values =
     fold (\<lambda>data d. AList.update (data_id data) (data_descr data) d) data_values []"

definition keys :: "('k \<times> 'v) list \<Rightarrow> 'k list" where
  "keys d = map fst d"


section \<open>Catalogue items and the errors of look-ups\<close>

text \<open>
  The metadata of an item is JSON: what \<open>asset.extra_fields\<close> and \<open>item.properties\<close>
  hold. Numbers are carried around and compared, never computed with. An object is
  an association list in the order of its keys.
\<close>

datatype json =
    JNull
  | JBool bool
  | JNum rat
  | JStr string
  | JList "json list"
  | JObj "(string \<times> json) list"

text \<open>
  The exceptions the notebook code can meet: a missing dictionary key, an index out
  of range, a subscript or a hash on a value that has none, a method that the value
  does not have, and whatever a library call raises (named by its message).
\<close>

datatype py_error =
    KeyError json
  | IndexError
  | TypeError
  | AttributeError
  | LibraryError string

record asset =
  href :: string
  extra_fields :: "(string \<times> json) list"

record item =
  id_of :: string
  assets_of :: "(string \<times> asset) list"
  properties_of :: "(string \<times> json) list"

text \<open>\<open>d[k]\<close> on a dictionary with string keys raises \<open>KeyError(k)\<close> when \<open>k\<close> is absent.\<close>

definition getitem :: "(string \<times> 'v) list \<Rightarrow> string \<Rightarrow> py_error + 'v" where
  "getitem d k = (case map_of d k of Some v \<Rightarrow> Inr v | None \<Rightarrow> Inl (KeyError (JStr k)))"

text \<open>
  \<open>xs[i]\<close> on a sequence: an index below zero counts from the end, and an index
  outside the sequence raises \<open>IndexError\<close>.
\<close>

definition py_index :: "'a list \<Rightarrow> int \<Rightarrow> py_error + 'a" where
  "py_index xs i =
     (if 0 \<le> i \<and> i < int (length xs) then Inr (xs ! nat i)
      else if i < 0 \<and> - int (length xs) \<le> i then Inr (xs ! nat (int (length xs) + i))
      else Inl IndexError)"

text \<open>
  \<open>v[0]\<close> on a JSON value: the first element of a list, the first character of a
  string (as a string), \<open>IndexError\<close> on an empty one; an object has string keys
  only, so the key \<open>0\<close> is missing; null, booleans and numbers have no subscript.
\<close>

fun subscript0 :: "json \<Rightarrow> py_error + json" where
  "subscript0 (JList []) = Inl IndexError"
| "subscript0 (JList (x # xs)) = Inr x"
| "subscript0 (JStr []) = Inl IndexError"
| "subscript0 (JStr (c # cs)) = Inr (JStr [c])"
| "subscript0 (JObj kvs) = Inl (KeyError (JNum 0))"
| "subscript0 JNull = Inl TypeError"
| "subscript0 (JBool b) = Inl TypeError"
| "subscript0 (JNum n) = Inl TypeError"

text \<open>
  \<open>v[k]\<close> with a string \<open>k\<close>: a look-up in an object; a list or a string takes
  integer indices only and the other values have no subscript, all \<open>TypeError\<close>.
\<close>

fun subscript_key :: "json \<Rightarrow> string \<Rightarrow> py_error + json" where
  "subscript_key (JObj kvs) k = getitem kvs k"
| "subscript_key (JList xs) k = Inl TypeError"
| "subscript_key (JStr s) k = Inl TypeError"
| "subscript_key JNull k = Inl TypeError"
| "subscript_key (JBool b) k = Inl TypeError"
| "subscript_key (JNum n) k = Inl TypeError"

text \<open>
  A dictionary whose keys are arbitrary values. Lists and dictionaries cannot be
  hashed. Two keys are the same key when Python's \<open>==\<close> holds: numbers by value, a
  boolean as the number 0 or 1, strings by their text, \<open>None\<close> only with itself.
  \<open>d[k] = v\<close> replaces the value of an equal key where it stands (the first key
  object stays) and otherwise appends; \<open>d[k]\<close> raises \<open>KeyError(k)\<close> when no key
  equals \<open>k\<close>.
\<close>

fun hashable :: "json \<Rightarrow> bool" where
  "hashable (JList xs) = False"
| "hashable (JObj kvs) = False"
| "hashable JNull = True"
| "hashable (JBool b) = True"
| "hashable (JNum n) = True"
| "hashable (JStr s) = True"

fun key_eq :: "json \<Rightarrow> json \<Rightarrow> bool" where
  "key_eq JNull JNull = True"
| "key_eq (JStr a) (JStr b) = (a = b)"
| "key_eq (JNum a) (JNum b) = (a = b)"
| "key_eq (JBool a) (JBool b) = (a = b)"
| "key_eq (JBool a) (JNum b) = ((if a then 1 else 0) = b)"
| "key_eq (JNum a) (JBool b) = (a = (if b then 1 else 0))"
| "key_eq a b = False"

fun dict_set :: "json \<Rightarrow> 'v \<Rightarrow> (json \<times> 'v) list \<Rightarrow> (json \<times> 'v) list" where
  "dict_set k v [] = [(k, v)]"
| "dict_set k v ((k', v') # d) =
     (if key_eq k' k then (k', v) # d else (k', v') # dict_set k v d)"

definition setitem :: "json \<Rightarrow> 'v \<Rightarrow> (json \<times> 'v) list \<Rightarrow> py_error + (json \<times> 'v) list" where
  "setitem k v d = (if hashable k then Inr (dict_set k v d) else Inl TypeError)"

fun dict_get :: "(json \<times> 'v) list \<Rightarrow> json \<Rightarrow> py_error + 'v" where
  "dict_get [] k = Inl (KeyError k)"
| "dict_get ((k', v) # d) k = (if key_eq k' k then Inr v else dict_get d k)"

section \<open>Geospatial notebook: the cells with code of their own\<close>

subsection \<open>Listing the collections\<close>

text \<open>
  The cell of \<open>all_collections\<close> and \<open>landsat_collections\<close> above, with the library
  call \<open>catalog.get_collections()\<close> as a parameter.
\<close>

definition collections_cell ::
  "('c \<Rightarrow> py_error + collection list) \<Rightarrow> 'c \<Rightarrow> py_error + (string list \<times> string list)" where
  "collections_cell get_collections catalog =
     (case get_collections catalog of
        Inl e \<Rightarrow> Inl e
      | Inr cs \<Rightarrow> Inr (all_collections cs, landsat_collections (all_collections cs)))"

subsection \<open>Running the search\<close>

text \<open>
  \<^verbatim>\<open>
  search = catalog.search(collections=[...], bbox=bbox, datetime=datetime, query={...})
  items = search.item_collection()
  print(f"Returned {len(items)} Items:")
  item_id = {(i, item.id): i for i, item in enumerate(items)}
  \<close>
  The remote search is a collaborator: \<open>item_collection\<close> stands for
  \<open>catalog.search(...).item_collection()\<close> and answers a query with an exception or
  with the matching items in the order of the service. The cell returns the items,
  the number it prints and the dictionary \<open>item_id\<close>.
\<close>

definition enumerate_py :: "'a list \<Rightarrow> (int \<times> 'a) list" where
  "enumerate_py xs = zip (map int [0..<length xs]) xs"

definition item_id :: "item list \<Rightarrow> ((int \<times> string) \<times> int) list" where
  "item_id items =
     fold (\<lambda>(i, item) d. AList.update (i, id_of item) i d) (enumerate_py items) []"

definition search_cell ::
  "('q \<Rightarrow> py_error + item list) \<Rightarrow> 'q \<Rightarrow>
     py_error + (item list \<times> int \<times> ((int \<times> string) \<times> int) list)" where
  "search_cell item_collection query =
     (case item_collection query of
        Inl e \<Rightarrow> Inl e
      | Inr items \<Rightarrow> Inr (items, int (length items), item_id items))"

subsection \<open>Preview and selection\<close>

text \<open>
  \<^verbatim>\<open>
  def get_preview(i):
      return pn.panel(items[i].assets["rendered_preview"].href, height=300)

  selected_item = items[1]
  \<close>
  \<open>panel\<close> stands for \<open>pn.panel\<close>.
\<close>

definition get_preview ::
  "(string \<Rightarrow> int \<Rightarrow> py_error + 'w) \<Rightarrow> item list \<Rightarrow> int \<Rightarrow> py_error + 'w" where
  "get_preview panel items i =
     (case py_index items i of
        Inl e \<Rightarrow> Inl e
      | Inr item \<Rightarrow>
          (case getitem (assets_of item) ''rendered_preview'' of
             Inl e \<Rightarrow> Inl e
           | Inr a \<Rightarrow> panel (href a) 300))"

definition selected_item :: "item list \<Rightarrow> py_error + item" where
  "selected_item items = py_index items 1"

subsection \<open>Listing the bands of the selected item\<close>

text \<open>
  \<^verbatim>\<open>
  assets = []
  for _, asset in selected_item.assets.items():
      try:
          assets.append(asset.extra_fields["eo:bands"][0])
      except:
          pass

  cols_ordered = [
      "common_name",
      "description",
      "name",
      "center_wavelength",
      "full_width_half_max",
  ]
  bands = pd.DataFrame.from_dict(assets)[cols_ordered]
  \<close>
  \<open>first_eo_band\<close> is the expression under \<open>try\<close>. The bare \<open>except\<close> catches every
  exception it raises and the loop goes on to the next asset. \<open>assets\<close> is the list
  the loop leaves behind. The table is built by pandas: \<open>select_columns\<close> stands for
  \<open>pd.DataFrame.from_dict(rows)[cols]\<close>, which returns a table or raises (a
  \<open>KeyError\<close> when a column is in no row), and the cell returns or raises what it does.
\<close>

definition first_eo_band :: "asset \<Rightarrow> py_error + json" where
  "first_eo_band asset =
     (case getitem (extra_fields asset) ''eo:bands'' of
        Inl e \<Rightarrow> Inl e
      | Inr eo_bands \<Rightarrow> subscript0 eo_bands)"

fun assets_loop :: "(string \<times> asset) list \<Rightarrow> json list \<Rightarrow> json list" where
  "assets_loop [] acc = acc"
| "assets_loop ((name, asset) # rest) acc =
     (case first_eo_band asset of
        Inr band \<Rightarrow> assets_loop rest (acc @ [band])
      | Inl e \<Rightarrow> assets_loop rest acc)"

definition assets :: "item \<Rightarrow> json list" where
  "assets selected = assets_loop (assets_of selected) []"

definition cols_ordered :: "string list" where
  "cols_ordered =
     [''common_name'', ''description'', ''name'', ''center_wavelength'', ''full_width_half_max'']"

definition bands ::
  "(json list \<Rightarrow> string list \<Rightarrow> py_error + 'df) \<Rightarrow> item \<Rightarrow> py_error + 'df" where
  "bands select_columns selected = select_columns (assets selected) cols_ordered"

subsection \<open>Setting the crs attribute\<close>

text \<open>
  \<^verbatim>\<open>
  da.attrs["crs"] = f"epsg:{selected_item.properties['proj:epsg']}"
  \<close>
  The right-hand side is evaluated first: the look-up in the properties of the item,
  then the formatting. \<open>str_py\<close> stands for the text an f-string makes of a value,
  \<open>attrs\<close> is the dictionary \<open>da.attrs\<close> before the assignment, and the cell returns
  it after the assignment.
\<close>

definition crs_cell ::
  "(json \<Rightarrow> string) \<Rightarrow> item \<Rightarrow> (string \<times> json) list \<Rightarrow> py_error + (string \<times> json) list" where
  "crs_cell str_py selected attrs =
     (case getitem (properties_of selected) ''proj:epsg'' of
        Inl e \<Rightarrow> Inl e
      | Inr epsg \<Rightarrow> Inr (AList.update ''crs'' (JStr (''epsg:'' @ str_py epsg)) attrs))"

section \<open>Intake notebook: the cells with code of their own\<close>

subsection \<open>Collecting the descriptions\<close>

text \<open>
  \<^verbatim>\<open>
  stac_cat = reader.read()

  description = {}
  for data_description in stac_cat.data.values():
      data = data_description.kwargs["data"]
      description[data["id"]] = data["description"]
  \<close>
  The loop again, now with its look-ups able to fail. Each entry of
  \<open>stac_cat.data.values()\<close> is given by its dictionary \<open>kwargs\<close>. In the assignment
  the right-hand side \<open>data["description"]\<close> is evaluated before the key
  \<open>data["id"]\<close>, and the key must be hashable. \<open>read\<close> stands for
  \<open>reader.read().data.values()\<close>.
\<close>

definition description_step ::
  "(string \<times> json) list \<Rightarrow> (json \<times> json) list \<Rightarrow> py_error + (json \<times> json) list" where
  "description_step kwargs d =
     (case getitem kwargs ''data'' of
        Inl e \<Rightarrow> Inl e
      | Inr data \<Rightarrow>
          (case subscript_key data ''description'' of
             Inl e \<Rightarrow> Inl e
           | Inr v \<Rightarrow>
               (case subscript_key data ''id'' of
                  Inl e \<Rightarrow> Inl e
                | Inr k \<Rightarrow> setitem k v d)))"

fun description_loop ::
  "(string \<times> json) list list \<Rightarrow> (json \<times> json) list \<Rightarrow> py_error + (json \<times> json) list" where
  "description_loop [] d = Inr d"
| "description_loop (kwargs # rest) d =
     (case description_step kwargs d of
        Inl e \<Rightarrow> Inl e
      | Inr d' \<Rightarrow> description_loop rest d')"

definition description_cell ::
  "('r \<Rightarrow> py_error + (string \<times> json) list list) \<Rightarrow> 'r \<Rightarrow> py_error + (json \<times> json) list" where
  "description_cell read reader =
     (case read reader of
        Inl e \<Rightarrow> Inl e
      | Inr data_values \<Rightarrow> description_loop data_values [])"

subsection \<open>Printing the landsat keys and two descriptions\<close>

text \<open>
  \<^verbatim>\<open>
  pprint([key for key in description.keys() if 'landsat' in key.lower()])

  print("1:", description["landsat-c2-l1"])
  print('-------------------------------\n')
  print("2:", description["landsat-c2-l2"])
  \<close>
  Only a string has the method \<open>lower\<close>; on another key the comprehension raises
  \<open>AttributeError\<close>. The second cell returns the two descriptions it prints.
\<close>

fun key_lower :: "json \<Rightarrow> py_error + string" where
  "key_lower (JStr s) = Inr (lower s)"
| "key_lower JNull = Inl AttributeError"
| "key_lower (JBool b) = Inl AttributeError"
| "key_lower (JNum n) = Inl AttributeError"
| "key_lower (JList xs) = Inl AttributeError"
| "key_lower (JObj kvs) = Inl AttributeError"

fun landsat_keys_loop :: "json list \<Rightarrow> py_error + json list" where
  "landsat_keys_loop [] = Inr []"
| "landsat_keys_loop (key # rest) =
     (case key_lower key of
        Inl e \<Rightarrow> Inl e
      | Inr l \<Rightarrow>
          (case landsat_keys_loop rest of
             Inl e \<Rightarrow> Inl e
           | Inr ks \<Rightarrow> Inr (if str_contains ''landsat'' l then key # ks else ks)))"

definition print_descriptions :: "(json \<times> 'v) list \<Rightarrow> py_error + ('v \<times> 'v)" where
  "print_descriptions d =
     (case dict_get d (JStr ''landsat-c2-l1'') of
        Inl e \<Rightarrow> Inl e
      | Inr d1 \<Rightarrow>
          (case dict_get d (JStr ''landsat-c2-l2'') of
             Inl e \<Rightarrow> Inl e
           | Inr d2 \<Rightarrow> Inr (d1, d2)))"

subsection \<open>Reading the first entry\<close>

text \<open>
  \<^verbatim>\<open>
  item_key = list(cat.entries.keys())[0]
  subcat = cat[item_key].read()
  \<close>
  \<open>entries\<close> is the dictionary \<open>cat.entries\<close> and \<open>read_entry\<close> stands for the
  library's \<open>cat[item_key].read()\<close>.
\<close>

definition subcat_cell ::
  "('k \<Rightarrow> py_error + 'o) \<Rightarrow> ('k \<times> 'v) list \<Rightarrow> py_error + ('k \<times> 'o)" where
  "subcat_cell read_entry entries =
     (case py_index (keys entries) 0 of
        Inl e \<Rightarrow> Inl e
      | Inr item_key \<Rightarrow>
          (case read_entry item_key of
             Inl e \<Rightarrow> Inl e
           | Inr subcat \<Rightarrow> Inr (item_key, subcat)))"

section \<open>Properties of the string operations\<close>









section \<open>Properties of the notebook cells\<close>

lemma assets_loop_eq:
  "assets_loop xs acc =
     acc @ List.map_filter
       (\<lambda>(name, asset). case first_eo_band asset of Inr band \<Rightarrow> Some band | Inl e \<Rightarrow> None) xs"
  by (induction xs acc rule: assets_loop.induct)
     (auto simp: List.map_filter_simps split: sum.splits)

lemma subscript0_Inr:
  "subscript0 v = Inr x \<longleftrightarrow>
     (\<exists>rest. v = JList (x # rest)) \<or> (\<exists>c cs. v = JStr (c # cs) \<and> x = JStr [c])"
  by (cases v rule: subscript0.cases) auto

lemma first_eo_band_Inr:
  "first_eo_band asset = Inr band \<longleftrightarrow>
     (\<exists>rest. map_of (extra_fields asset) ''eo:bands'' = Some (JList (band # rest)))
   \<or> (\<exists>c cs. map_of (extra_fields asset) ''eo:bands'' = Some (JStr (c # cs)) \<and> band = JStr [c])"
  by (cases "map_of (extra_fields asset) ''eo:bands''")
     (auto simp: first_eo_band_def getitem_def subscript0_Inr)

lemma bands_eq:
  "bands select_columns selected =
     select_columns
       (List.map_filter
          (\<lambda>(name, asset). case first_eo_band asset of Inr band \<Rightarrow> Some band | Inl e \<Rightarrow> None)
          (assets_of selected))
       cols_ordered"
  by (simp add: bands_def assets_def assets_loop_eq)

lemma py_index_Inl:
  "py_index xs i = Inl e \<longleftrightarrow>
     e = IndexError \<and> (i < - int (length xs) \<or> int (length xs) \<le> i)"
  by (auto simp: py_index_def)

lemma getitem_Inl:
  "getitem d k = Inl e \<longleftrightarrow> e = KeyError (JStr k) \<and> k \<notin> fst ` set d"
proof (cases "map_of d k")
  case None
  then have "k \<notin> fst ` set d"
    by (simp add: map_of_eq_None_iff)
  with None show ?thesis by (auto simp: getitem_def)
next
  case (Some v)
  then have "k \<in> fst ` set d"
    using map_of_eq_None_iff [of d k] by auto
  with Some show ?thesis by (simp add: getitem_def)
qed

lemma getitem_Inr: "getitem d k = Inr v \<longleftrightarrow> map_of d k = Some v"
  by (auto simp: getitem_def split: option.splits)

lemma getitem_Inr_mem: "getitem d k = Inr v \<Longrightarrow> k \<in> fst ` set d"
  using getitem_Inl [of d k "KeyError (JStr k)"] by auto

lemma py_index_Inr_range:
  "py_index xs i = Inr v \<Longrightarrow> - int (length xs) \<le> i \<and> i < int (length xs)"
  by (auto simp: py_index_def split: if_splits)

lemma collections_cell_Inl:
  "collections_cell get_collections catalog = Inl e \<longleftrightarrow> get_collections catalog = Inl e"
  by (simp add: collections_cell_def split: sum.splits)

lemma search_cell_Inl:
  "search_cell item_collection query = Inl e \<longleftrightarrow> item_collection query = Inl e"
  by (simp add: search_cell_def split: sum.splits)

lemma selected_item_Inl:
  "selected_item items = Inl e \<longleftrightarrow> e = IndexError \<and> length items < 2"
  by (auto simp: selected_item_def py_index_Inl)

lemma get_preview_Inl:
  "get_preview panel items i = Inl e \<longleftrightarrow>
     (e = IndexError \<and> (i < - int (length items) \<or> int (length items) \<le> i))
   \<or> (\<exists>it. py_index items i = Inr it \<and> e = KeyError (JStr ''rendered_preview'') \<and>
          ''rendered_preview'' \<notin> fst ` set (assets_of it))
   \<or> (\<exists>it a. py_index items i = Inr it \<and>
          map_of (assets_of it) ''rendered_preview'' = Some a \<and> panel (href a) 300 = Inl e)"
proof (cases "py_index items i")
  case (Inl e0)
  then have "e0 = IndexError \<and> (i < - int (length items) \<or> int (length items) \<le> i)"
    by (simp add: py_index_Inl)
  with Inl show ?thesis by (auto simp: get_preview_def)
next
  case (Inr it)
  note range = py_index_Inr_range [OF Inr]
  show ?thesis
  proof (cases "getitem (assets_of it) ''rendered_preview''")
    case (Inl e1)
    then have "e1 = KeyError (JStr ''rendered_preview'') \<and>
        ''rendered_preview'' \<notin> fst ` set (assets_of it)"
      by (simp add: getitem_Inl)
    moreover from this have "map_of (assets_of it) ''rendered_preview'' = None"
      by (simp add: map_of_eq_None_iff)
    ultimately show ?thesis
      using Inr Inl range by (auto simp: get_preview_def)
  next
    case inr: (Inr a)
    then have "map_of (assets_of it) ''rendered_preview'' = Some a"
      by (simp add: getitem_Inr)
    moreover have "''rendered_preview'' \<in> fst ` set (assets_of it)"
      using inr by (rule getitem_Inr_mem)
    ultimately show ?thesis
      using Inr inr range by (auto simp: get_preview_def)
  qed
qed

lemma crs_cell_Inl:
  "crs_cell str_py selected attrs = Inl e \<longleftrightarrow>
     e = KeyError (JStr ''proj:epsg'') \<and> ''proj:epsg'' \<notin> fst ` set (properties_of selected)"
proof (cases "getitem (properties_of selected) ''proj:epsg''")
  case (Inl e0)
  then have "e0 = KeyError (JStr ''proj:epsg'') \<and>
      ''proj:epsg'' \<notin> fst ` set (properties_of selected)"
    by (simp add: getitem_Inl)
  with Inl show ?thesis by (auto simp: crs_cell_def)
next
  case (Inr epsg)
  from getitem_Inr_mem [OF Inr] Inr show ?thesis by (simp add: crs_cell_def)
qed

lemma setitem_Inl: "setitem k v d = Inl e \<longleftrightarrow> e = TypeError \<and> \<not> hashable k"
  by (auto simp: setitem_def)

lemma description_step_Inl:
  "description_step kwargs d = Inl e \<longleftrightarrow>
     getitem kwargs ''data'' = Inl e
   \<or> (\<exists>data. getitem kwargs ''data'' = Inr data \<and> subscript_key data ''description'' = Inl e)
   \<or> (\<exists>data v. getitem kwargs ''data'' = Inr data \<and> subscript_key data ''description'' = Inr v \<and>
          subscript_key data ''id'' = Inl e)
   \<or> (\<exists>data v k. getitem kwargs ''data'' = Inr data \<and> subscript_key data ''description'' = Inr v \<and>
          subscript_key data ''id'' = Inr k \<and> \<not> hashable k \<and> e = TypeError)"
  by (auto simp: description_step_def setitem_Inl split: sum.splits)

lemma description_loop_Inl:
  "description_loop kws d = Inl e \<longleftrightarrow>
     (\<exists>pre kwargs post d'. kws = pre @ kwargs # post \<and> description_loop pre d = Inr d' \<and>
        description_step kwargs d' = Inl e)"
proof (induction kws arbitrary: d)
  case Nil
  show ?case by simp
next
  case (Cons x xs)
  show ?case
  proof (cases "description_step x d")
    case (Inl e0)
    have "(\<exists>pre kwargs post d'. x # xs = pre @ kwargs # post \<and> description_loop pre d = Inr d' \<and>
        description_step kwargs d' = Inl e) \<longleftrightarrow> e0 = e"
    proof
      assume "\<exists>pre kwargs post d'. x # xs = pre @ kwargs # post \<and> description_loop pre d = Inr d' \<and>
        description_step kwargs d' = Inl e"
      then obtain pre kwargs post d' where eq: "x # xs = pre @ kwargs # post"
        and ok: "description_loop pre d = Inr d'" and bad: "description_step kwargs d' = Inl e"
        by blast
      show "e0 = e"
      proof (cases pre)
        case Nil
        with eq ok bad Inl show ?thesis by simp
      next
        case (Cons p ps)
        with eq ok Inl show ?thesis by simp
      qed
    next
      assume "e0 = e"
      with Inl have "x # xs = [] @ x # xs \<and> description_loop [] d = Inr d \<and>
        description_step x d = Inl e" by simp
      then show "\<exists>pre kwargs post d'. x # xs = pre @ kwargs # post \<and>
        description_loop pre d = Inr d' \<and> description_step kwargs d' = Inl e" by blast
    qed
    with Inl show ?thesis by simp
  next
    case (Inr d1)
    have "(\<exists>pre kwargs post d'. x # xs = pre @ kwargs # post \<and> description_loop pre d = Inr d' \<and>
        description_step kwargs d' = Inl e) \<longleftrightarrow>
      (\<exists>pre kwargs post d'. xs = pre @ kwargs # post \<and> description_loop pre d1 = Inr d' \<and>
        description_step kwargs d' = Inl e)"
    proof
      assume "\<exists>pre kwargs post d'. x # xs = pre @ kwargs # post \<and> description_loop pre d = Inr d' \<and>
        description_step kwargs d' = Inl e"
      then obtain pre kwargs post d' where eq: "x # xs = pre @ kwargs # post"
        and ok: "description_loop pre d = Inr d'" and bad: "description_step kwargs d' = Inl e"
        by blast
      show "\<exists>pre kwargs post d'. xs = pre @ kwargs # post \<and> description_loop pre d1 = Inr d' \<and>
        description_step kwargs d' = Inl e"
      proof (cases pre)
        case Nil
        with eq bad ok Inr show ?thesis by simp
      next
        case (Cons p ps)
        with eq ok Inr have "xs = ps @ kwargs # post \<and> description_loop ps d1 = Inr d'" by simp
        with bad show ?thesis by blast
      qed
    next
      assume "\<exists>pre kwargs post d'. xs = pre @ kwargs # post \<and> description_loop pre d1 = Inr d' \<and>
        description_step kwargs d' = Inl e"
      then obtain pre kwargs post d' where eq: "xs = pre @ kwargs # post"
        and ok: "description_loop pre d1 = Inr d'" and bad: "description_step kwargs d' = Inl e"
        by blast
      from eq ok Inr have "x # xs = (x # pre) @ kwargs # post \<and>
        description_loop (x # pre) d = Inr d'" by simp
      with bad show "\<exists>pre kwargs post d'. x # xs = pre @ kwargs # post \<and>
        description_loop pre d = Inr d' \<and> description_step kwargs d' = Inl e" by blast
    qed
    with Inr Cons.IH [of d1] show ?thesis by simp
  qed
qed

lemma description_cell_Inl:
  "description_cell read reader = Inl e \<longleftrightarrow>
     read reader = Inl e
   \<or> (\<exists>data_values. read reader = Inr data_values \<and> description_loop data_values [] = Inl e)"
  by (auto simp: description_cell_def split: sum.splits)

lemma key_lower_Inl: "key_lower k = Inl e \<longleftrightarrow> e = AttributeError \<and> (\<forall>s. k \<noteq> JStr s)"
  by (cases k) auto

lemma key_lower_Inr: "key_lower k = Inr l \<longleftrightarrow> (\<exists>s. k = JStr s \<and> l = lower s)"
  by (cases k) auto

lemma landsat_keys_loop_Inl:
  "landsat_keys_loop ks = Inl e \<longleftrightarrow> e = AttributeError \<and> (\<exists>k \<in> set ks. \<forall>s. k \<noteq> JStr s)"
proof (induction ks)
  case Nil
  show ?case by simp
next
  case (Cons k ks)
  show ?case
  proof (cases "key_lower k")
    case (Inl e0)
    then have "e0 = AttributeError \<and> (\<forall>s. k \<noteq> JStr s)"
      by (simp add: key_lower_Inl)
    with Inl show ?thesis by auto
  next
    case (Inr l)
    then have "\<exists>s. k = JStr s"
      by (auto simp: key_lower_Inr)
    with Inr Cons.IH show ?thesis by (auto split: sum.splits)
  qed
qed

lemma landsat_keys_loop_strings:
  "landsat_keys_loop (map JStr ks) =
     Inr (map JStr (filter (\<lambda>key. str_contains ''landsat'' (lower key)) ks))"
  by (induction ks) auto

lemma dict_get_Inl:
  "dict_get d k = Inl e \<longleftrightarrow> e = KeyError k \<and> (\<forall>k' \<in> fst ` set d. \<not> key_eq k' k)"
  by (induction d k rule: dict_get.induct) auto

lemma dict_get_Inr_ex: "dict_get d k = Inr v \<Longrightarrow> \<exists>k' \<in> fst ` set d. key_eq k' k"
  using dict_get_Inl [of d k "KeyError k"] by auto

lemma print_descriptions_Inl:
  "print_descriptions d = Inl e \<longleftrightarrow>
     (e = KeyError (JStr ''landsat-c2-l1'') \<and>
        (\<forall>k' \<in> fst ` set d. \<not> key_eq k' (JStr ''landsat-c2-l1'')))
   \<or> ((\<exists>k' \<in> fst ` set d. key_eq k' (JStr ''landsat-c2-l1'')) \<and>
        e = KeyError (JStr ''landsat-c2-l2'') \<and>
        (\<forall>k' \<in> fst ` set d. \<not> key_eq k' (JStr ''landsat-c2-l2'')))"
proof (cases "dict_get d (JStr ''landsat-c2-l1'')")
  case (Inl e1)
  then have "e1 = KeyError (JStr ''landsat-c2-l1'') \<and>
      (\<forall>k' \<in> fst ` set d. \<not> key_eq k' (JStr ''landsat-c2-l1''))"
    by (simp add: dict_get_Inl)
  with Inl show ?thesis by (auto simp: print_descriptions_def)
next
  case (Inr d1)
  note has1 = dict_get_Inr_ex [OF Inr]
  show ?thesis
  proof (cases "dict_get d (JStr ''landsat-c2-l2'')")
    case (Inl e2)
    then have "e2 = KeyError (JStr ''landsat-c2-l2'') \<and>
        (\<forall>k' \<in> fst ` set d. \<not> key_eq k' (JStr ''landsat-c2-l2''))"
      by (simp add: dict_get_Inl)
    with Inl Inr has1 show ?thesis by (auto simp: print_descriptions_def)
  next
    case inr: (Inr d2)
    note has2 = dict_get_Inr_ex [OF inr]
    with Inr inr has1 show ?thesis by (auto simp: print_descriptions_def)
  qed
qed

lemma subcat_cell_Inl:
  "subcat_cell read_entry entries = Inl e \<longleftrightarrow>
     (entries = [] \<and> e = IndexError)
   \<or> (\<exists>k v rest. entries = (k, v) # rest \<and> read_entry k = Inl e)"
  by (cases entries) (auto simp: subcat_cell_def py_index_def keys_def split: sum.splits)

lemma dict_set_strings:
  "dict_set (JStr k) (JStr v) (map (\<lambda>(a, b). (JStr a, JStr b)) al) =
     map (\<lambda>(a, b). (JStr a, JStr b)) (AList.update k v al)"
  by (induction al) auto

lemma description_loop_well_formed:
  "description_loop
     (map (\<lambda>data. [(''data'', JObj [(''id'', JStr (data_id data)),
                                      (''description'', JStr (data_descr data))])])
        data_values)
     (map (\<lambda>(a, b). (JStr a, JStr b)) d) =
   Inr (map (\<lambda>(a, b). (JStr a, JStr b))
     (fold (\<lambda>data d. AList.update (data_id data) (data_descr data) d) data_values d))"
  by (induction data_values arbitrary: d)
     (simp_all add: description_step_def getitem_def setitem_def dict_set_strings)

lemma description_cell_well_formed:
  "description_cell
     (\<lambda>reader. Inr (map (\<lambda>data. [(''data'', JObj [(''id'', JStr (data_id data)),
                                      (''description'', JStr (data_descr data))])])
        data_values)) reader =
   Inr (map (\<lambda>(a, b). (JStr a, JStr b)) (description data_values))"
  using description_loop_well_formed [of data_values "[]"]
  by (simp add: description_cell_def description_def)

section \<open>Claims\<close>



text \<open>
  C4, as stated: every stage hands every error it meets to its caller. The loop
  that lists the bands of the selected item does not. On an item whose first asset
  has no \<open>eo:bands\<close> entry the look-up raises \<open>KeyError\<close>, the bare \<open>except\<close> drops
  it, and the loop leaves in \<open>assets\<close> the band of the second asset alone: the error
  reaches no caller. The band has the five columns the table is then built from.
\<close>

theorem assets_loop_swallows_counterexample:
  "first_eo_band \<lparr>href = ''https://example.org/thumb.png'', extra_fields = []\<rparr> =
     Inl (KeyError (JStr ''eo:bands''))
   \<and> assets \<lparr>id_of = ''LC08_L2SP_042033_20170718_02_T1'',
        assets_of =
          [(''thumbnail'', \<lparr>href = ''https://example.org/thumb.png'', extra_fields = []\<rparr>),
           (''red'', \<lparr>href = ''https://example.org/B4.TIF'',
              extra_fields = [(''eo:bands'',
                JList [JObj [(''name'', JStr ''OLI_B4''), (''common_name'', JStr ''red''),
                             (''description'', JStr ''Visible red''),
                             (''center_wavelength'', JNum (13 / 20)),
                             (''full_width_half_max'', JNum (1 / 25))]])]\<rparr>)],
        properties_of = []\<rparr> =
     [JObj [(''name'', JStr ''OLI_B4''), (''common_name'', JStr ''red''),
            (''description'', JStr ''Visible red''),
            (''center_wavelength'', JNum (13 / 20)),
            (''full_width_half_max'', JNum (1 / 25))]]"
  by (simp add: assets_def first_eo_band_def getitem_def)

text \<open>
  C4, amended. With one exception, every cell that has code of its own raises the
  first error it meets and puts no default in its place:
  \<^item> the column selection after the band loop returns or raises what pandas does;
  \<^item> the collection listing and the search raise exactly the error of the library;
  \<^item> the preview raises the \<open>IndexError\<close> of \<open>items[i]\<close>, the \<open>KeyError\<close> of a missing
    \<open>rendered_preview\<close> asset, or what \<open>pn.panel\<close> raises;
  \<^item> \<open>items[1]\<close> raises \<open>IndexError\<close> on fewer than two items;
  \<^item> the crs assignment raises \<open>KeyError\<close> when \<open>proj:epsg\<close> is not a property;
  \<^item> the description loop raises the error of \<open>reader.read()\<close> or of the first entry
    whose step fails, and a step fails with the first failing of \<open>kwargs["data"]\<close>,
    \<open>data["description"]\<close>, \<open>data["id"]\<close> and the hash of the id;
  \<^item> the landsat keys raise \<open>AttributeError\<close> on a key that is not a string;
  \<^item> the two printed descriptions raise the \<open>KeyError\<close> of the first missing key;
  \<^item> the first entry raises \<open>IndexError\<close> on an empty catalogue, or what reading the
    entry raises.

  The exception is the band loop: it catches every error raised while reading
  \<open>asset.extra_fields["eo:bands"][0]\<close>, skips that asset and goes on, so the list
  handed to the column selection holds the first \<open>eo:bands\<close> entry of exactly the
  assets that have one, in the order of the assets. An asset has one when its
  \<open>eo:bands\<close> field is a list or a string that is not empty; the entry is the first
  element of the list, or the first character of the string.
\<close>

theorem errors_surface_except_in_assets_loop:
  "bands select_columns selected =
     select_columns
       (List.map_filter
          (\<lambda>(name, asset). case first_eo_band asset of Inr band \<Rightarrow> Some band | Inl e \<Rightarrow> None)
          (assets_of selected))
       cols_ordered
   \<and> (collections_cell get_collections catalog = Inl e \<longleftrightarrow> get_collections catalog = Inl e)
   \<and> (search_cell item_collection query = Inl e \<longleftrightarrow> item_collection query = Inl e)
   \<and> (get_preview panel items i = Inl e \<longleftrightarrow>
        (e = IndexError \<and> (i < - int (length items) \<or> int (length items) \<le> i))
      \<or> (\<exists>it. py_index items i = Inr it \<and> e = KeyError (JStr ''rendered_preview'') \<and>
             ''rendered_preview'' \<notin> fst ` set (assets_of it))
      \<or> (\<exists>it a. py_index items i = Inr it \<and>
             map_of (assets_of it) ''rendered_preview'' = Some a \<and> panel (href a) 300 = Inl e))
   \<and> (selected_item items = Inl e \<longleftrightarrow> e = IndexError \<and> length items < 2)
   \<and> (crs_cell str_py selected attrs = Inl e \<longleftrightarrow>
        e = KeyError (JStr ''proj:epsg'') \<and> ''proj:epsg'' \<notin> fst ` set (properties_of selected))
   \<and> (description_cell read reader = Inl e \<longleftrightarrow>
        read reader = Inl e
      \<or> (\<exists>pre kwargs post d'. read reader = Inr (pre @ kwargs # post) \<and>
             description_loop pre [] = Inr d' \<and> description_step kwargs d' = Inl e))
   \<and> (description_step kwargs d = Inl e \<longleftrightarrow>
        getitem kwargs ''data'' = Inl e
      \<or> (\<exists>data. getitem kwargs ''data'' = Inr data \<and> subscript_key data ''description'' = Inl e)
      \<or> (\<exists>data v. getitem kwargs ''data'' = Inr data \<and>
             subscript_key data ''description'' = Inr v \<and> subscript_key data ''id'' = Inl e)
      \<or> (\<exists>data v k. getitem kwargs ''data'' = Inr data \<and>
             subscript_key data ''description'' = Inr v \<and> subscript_key data ''id'' = Inr k \<and>
             \<not> hashable k \<and> e = TypeError))
   \<and> (landsat_keys_loop ks = Inl e \<longleftrightarrow>
        e = AttributeError \<and> (\<exists>k \<in> set ks. \<forall>s. k \<noteq> JStr s))
   \<and> (print_descriptions descr = Inl e \<longleftrightarrow>
        (e = KeyError (JStr ''landsat-c2-l1'') \<and>
           (\<forall>k' \<in> fst ` set descr. \<not> key_eq k' (JStr ''landsat-c2-l1'')))
      \<or> ((\<exists>k' \<in> fst ` set descr. key_eq k' (JStr ''landsat-c2-l1'')) \<and>
           e = KeyError (JStr ''landsat-c2-l2'') \<and>
           (\<forall>k' \<in> fst ` set descr. \<not> key_eq k' (JStr ''landsat-c2-l2''))))
   \<and> (subcat_cell read_entry entries = Inl e \<longleftrightarrow>
        (entries = [] \<and> e = IndexError)
      \<or> (\<exists>k v rest. entries = (k, v) # rest \<and> read_entry k = Inl e))
   \<and> (first_eo_band asset = Inr band \<longleftrightarrow>
        (\<exists>rest. map_of (extra_fields asset) ''eo:bands'' = Some (JList (band # rest)))
      \<or> (\<exists>c cs. map_of (extra_fields asset) ''eo:bands'' = Some (JStr (c # cs)) \<and>
             band = JStr [c]))"
proof -
  have cell: "description_cell read reader = Inl e \<longleftrightarrow>
        read reader = Inl e
      \<or> (\<exists>pre kwargs post d'. read reader = Inr (pre @ kwargs # post) \<and>
             description_loop pre [] = Inr d' \<and> description_step kwargs d' = Inl e)"
    unfolding description_cell_Inl description_loop_Inl by blast
  show ?thesis
    by (intro conjI)
       (fact bands_eq collections_cell_Inl search_cell_Inl get_preview_Inl selected_item_Inl
          crs_cell_Inl cell description_step_Inl landsat_keys_loop_Inl print_descriptions_Inl
          subcat_cell_Inl first_eo_band_Inr)+
qed

theorem errors_surface_except_in_assets_loop_witness:
  "search_cell (\<lambda>q :: string. Inl (LibraryError ''APIError'')) ''2017-06-01/2017-09-30'' =
     Inl (LibraryError ''APIError'')
   \<and> get_preview (\<lambda>h n. Inr h :: py_error + string)
        [\<lparr>id_of = ''a'', assets_of = [], properties_of = []\<rparr>] 0 =
        Inl (KeyError (JStr ''rendered_preview''))
   \<and> selected_item [\<lparr>id_of = ''a'', assets_of = [], properties_of = []\<rparr>] = Inl IndexError
   \<and> crs_cell (\<lambda>v. ''32611'') \<lparr>id_of = ''a'', assets_of = [], properties_of = []\<rparr> [] =
        Inl (KeyError (JStr ''proj:epsg''))
   \<and> description_cell (\<lambda>r :: unit. Inr [[(''cls'', JStr ''StacCatalogReader'')]]) () =
        Inl (KeyError (JStr ''data''))
   \<and> landsat_keys_loop [JStr ''landsat-c2-l2'', JNum 1] = Inl AttributeError
   \<and> print_descriptions [(JStr ''landsat-c2-l1'', JStr ''Landsat Collection 2 Level-1'')] =
        Inl (KeyError (JStr ''landsat-c2-l2''))
   \<and> subcat_cell (\<lambda>k :: string. Inr k :: py_error + string) ([] :: (string \<times> unit) list) =
        Inl IndexError"
proof -
  let ?a = "\<lparr>id_of = ''a'', assets_of = [], properties_of = []\<rparr>"
  have c_search: "search_cell (\<lambda>q :: string. Inl (LibraryError ''APIError''))
      ''2017-06-01/2017-09-30'' = Inl (LibraryError ''APIError'')"
    using errors_surface_except_in_assets_loop
      [where item_collection = "\<lambda>q :: string. Inl (LibraryError ''APIError'')"
         and query = "''2017-06-01/2017-09-30''" and e = "LibraryError ''APIError''",
       THEN conjunct2, THEN conjunct2, THEN conjunct1]
    by simp
  have "py_index [?a] 0 = Inr ?a \<and> KeyError (JStr ''rendered_preview'') =
      KeyError (JStr ''rendered_preview'') \<and> ''rendered_preview'' \<notin> fst ` set (assets_of ?a)"
    by (simp add: py_index_def)
  then have "\<exists>it. py_index [?a] 0 = Inr it \<and> KeyError (JStr ''rendered_preview'') =
      KeyError (JStr ''rendered_preview'') \<and> ''rendered_preview'' \<notin> fst ` set (assets_of it)"
    by (rule exI)
  then have c_preview: "get_preview (\<lambda>h n. Inr h :: py_error + string) [?a] 0 =
      Inl (KeyError (JStr ''rendered_preview''))"
    using errors_surface_except_in_assets_loop
      [where panel = "\<lambda>h n. Inr h :: py_error + string" and items = "[?a]" and i = 0
         and e = "KeyError (JStr ''rendered_preview'')",
       THEN conjunct2, THEN conjunct2, THEN conjunct2, THEN conjunct1]
    by blast
  have "IndexError = IndexError \<and> length [?a] < 2"
    by simp
  then have c_selected: "selected_item [?a] = Inl IndexError"
    using errors_surface_except_in_assets_loop
      [where items = "[?a]" and e = IndexError,
       THEN conjunct2, THEN conjunct2, THEN conjunct2, THEN conjunct2, THEN conjunct1]
    by (rule iffD2 [rotated])
  have "KeyError (JStr ''proj:epsg'') = KeyError (JStr ''proj:epsg'') \<and>
      ''proj:epsg'' \<notin> fst ` set (properties_of ?a)"
    by simp
  then have c_crs: "crs_cell (\<lambda>v. ''32611'') ?a [] = Inl (KeyError (JStr ''proj:epsg''))"
    using errors_surface_except_in_assets_loop
      [where selected = ?a and e = "KeyError (JStr ''proj:epsg'')" and str_py = "\<lambda>v. ''32611''"
         and attrs = "[]",
       THEN conjunct2, THEN conjunct2, THEN conjunct2, THEN conjunct2, THEN conjunct2,
       THEN conjunct1]
    by (rule iffD2 [rotated])
  have "(\<lambda>r :: unit. Inr [[(''cls'', JStr ''StacCatalogReader'')]] ::
          py_error + (string \<times> json) list list) () =
        Inr ([] @ [(''cls'', JStr ''StacCatalogReader'')] # []) \<and>
      description_loop [] [] = Inr [] \<and>
      description_step [(''cls'', JStr ''StacCatalogReader'')] [] = Inl (KeyError (JStr ''data''))"
    by (simp add: description_step_def getitem_def)
  then have "\<exists>pre kwargs post d'.
      (\<lambda>r :: unit. Inr [[(''cls'', JStr ''StacCatalogReader'')]] ::
          py_error + (string \<times> json) list list) () = Inr (pre @ kwargs # post) \<and>
      description_loop pre [] = Inr d' \<and>
      description_step kwargs d' = Inl (KeyError (JStr ''data''))"
    by blast
  then have c_descr: "description_cell
      (\<lambda>r :: unit. Inr [[(''cls'', JStr ''StacCatalogReader'')]]) () =
      Inl (KeyError (JStr ''data''))"
    using errors_surface_except_in_assets_loop
      [where read = "\<lambda>r :: unit. Inr [[(''cls'', JStr ''StacCatalogReader'')]]"
         and reader = "()" and e = "KeyError (JStr ''data'')",
       THEN conjunct2, THEN conjunct2, THEN conjunct2, THEN conjunct2, THEN conjunct2,
       THEN conjunct2, THEN conjunct1]
    by blast
  have "AttributeError = AttributeError \<and>
      (\<exists>k \<in> set [JStr ''landsat-c2-l2'', JNum 1]. \<forall>s. k \<noteq> JStr s)"
    by simp
  then have c_keys: "landsat_keys_loop [JStr ''landsat-c2-l2'', JNum 1] = Inl AttributeError"
    using errors_surface_except_in_assets_loop
      [where ks = "[JStr ''landsat-c2-l2'', JNum 1]" and e = AttributeError,
       THEN conjunct2, THEN conjunct2, THEN conjunct2, THEN conjunct2, THEN conjunct2,
       THEN conjunct2, THEN conjunct2, THEN conjunct2, THEN conjunct1]
    by (rule iffD2 [rotated])
  have "(\<exists>k' \<in> fst ` set [(JStr ''landsat-c2-l1'', JStr ''Landsat Collection 2 Level-1'')].
        key_eq k' (JStr ''landsat-c2-l1'')) \<and>
      KeyError (JStr ''landsat-c2-l2'') = KeyError (JStr ''landsat-c2-l2'') \<and>
      (\<forall>k' \<in> fst ` set [(JStr ''landsat-c2-l1'', JStr ''Landsat Collection 2 Level-1'')].
        \<not> key_eq k' (JStr ''landsat-c2-l2''))"
    by simp
  then have c_print: "print_descriptions
      [(JStr ''landsat-c2-l1'', JStr ''Landsat Collection 2 Level-1'')] =
      Inl (KeyError (JStr ''landsat-c2-l2''))"
    using errors_surface_except_in_assets_loop
      [where descr = "[(JStr ''landsat-c2-l1'', JStr ''Landsat Collection 2 Level-1'')]"
         and e = "KeyError (JStr ''landsat-c2-l2'')",
       THEN conjunct2, THEN conjunct2, THEN conjunct2, THEN conjunct2, THEN conjunct2,
       THEN conjunct2, THEN conjunct2, THEN conjunct2, THEN conjunct2, THEN conjunct1]
    by blast
  have "([] :: (string \<times> unit) list) = [] \<and> IndexError = IndexError"
    by simp
  then have c_subcat: "subcat_cell (\<lambda>k :: string. Inr k :: py_error + string)
      ([] :: (string \<times> unit) list) = Inl IndexError"
    using errors_surface_except_in_assets_loop
      [where read_entry = "\<lambda>k :: string. Inr k :: py_error + string"
         and entries = "[] :: (string \<times> unit) list" and e = IndexError,
       THEN conjunct2, THEN conjunct2, THEN conjunct2, THEN conjunct2, THEN conjunct2,
       THEN conjunct2, THEN conjunct2, THEN conjunct2, THEN conjunct2, THEN conjunct2,
       THEN conjunct1]
    by blast
  show ?thesis
    by (intro conjI)
       (fact c_search c_preview c_selected c_crs c_descr c_keys c_print c_subcat)+
qed

end
